theory Spec2Isabelle
  imports Complex_Main "HOL-Library.AList"
begin

section \<open>The Sawyer robot adapter (garage/contrib/ros/robots/sawyer.py)\<close>

text \<open>
  The adapter is a Python class whose methods read a handful of attributes set by the
  constructor and talk to three external parties: the limb and gripper handles of the
  robot SDK, the ROS runtime, and a state-validity service. The embedding keeps the
  attributes in a record, the external parties in a second record (a snapshot of what
  they answer), and returns from every method that commands the hardware the list of
  SDK calls it made, in order, next to its result or the exception it raised.

  Python floats are idealised as \<open>real\<close>: addition, multiplication and comparison are
  exact, and the cast of a box's bounds to \<open>float32\<close> is the identity. The concrete
  inputs evaluated below use dyadic values well inside the bounds, for which the float
  computation is exact as well.
\<close>

subsection \<open>Python values\<close>

text \<open>
  A \<open>dict\<close> from joint names to floats is an association list in insertion order;
  \<open>d[k]\<close> is \<open>map_of d k\<close> (\<open>KeyError\<close> on \<open>None\<close>), \<open>d[k] = v\<close> is
  \<open>AList.update k v d\<close> (an existing key keeps its place, a new key goes last), and
  iterating yields \<open>map fst d\<close>. A well-formed dict has distinct keys.
\<close>

type_synonym dict = "(string \<times> real) list"

text \<open>
  The exceptions the adapter can raise. Only the message of the \<open>ValueError\<close> raised by
  \<open>action_space\<close> itself comes from the source; the messages of errors raised inside
  \<open>list.index\<close>, \<open>int\<close> and numpy are abbreviated.
\<close>

datatype py_error =
    ValueError string
  | KeyError string
  | IndexError
  | UnboundLocalError string

fun is_ValueError :: "py_error \<Rightarrow> bool" where
  "is_ValueError (ValueError _) = True"
| "is_ValueError _ = False"

text \<open>\<open>xs.index(x)\<close>: the first position of \<open>x\<close>, \<open>ValueError\<close> when absent.\<close>

fun list_index :: "string list \<Rightarrow> string \<Rightarrow> py_error + nat" where
  "list_index [] x = Inl (ValueError (x @ '' is not in list''))"
| "list_index (y # ys) x =
     (if y = x then Inr 0
      else (case list_index ys x of Inl e \<Rightarrow> Inl e | Inr n \<Rightarrow> Inr (Suc n)))"

text \<open>\<open>xs[i:j]\<close> for non-negative \<open>i\<close>, \<open>j\<close>: never raises, may be shorter than \<open>j - i\<close>.\<close>

definition py_slice :: "'a list \<Rightarrow> nat \<Rightarrow> nat \<Rightarrow> 'a list" where
  "py_slice xs i j = take (j - i) (drop i xs)"

text \<open>\<open>a[i]\<close> on a one-dimensional array with \<open>i \<ge> 0\<close>.\<close>

definition np_index :: "real list \<Rightarrow> nat \<Rightarrow> py_error + real" where
  "np_index a i = (if i < length a then Inr (a ! i) else Inl IndexError)"

text \<open>\<open>int(j[-1])\<close>: the last character of a joint name read as a decimal digit.\<close>

definition joint_index :: "string \<Rightarrow> py_error + nat" where
  "joint_index j =
     (if j = [] then Inl IndexError
      else (let n = (of_char (last j) :: nat)
            in if 48 \<le> n \<and> n \<le> 57 then Inr (n - 48)
               else Inl (ValueError ''invalid literal for int()'')))"

subsection \<open>numpy and gym\<close>

definition np_full :: "nat \<Rightarrow> real \<Rightarrow> real list" where
  "np_full n v = replicate n v"

text \<open>\<open>np.clip\<close> on scalars is \<open>minimum(maximum(x, lo), hi)\<close>.\<close>

definition clip_scalar :: "real \<Rightarrow> real \<Rightarrow> real \<Rightarrow> real" where
  "clip_scalar x lo hi = min (max x lo) hi"

text \<open>
  Broadcasting of one-dimensional shapes: every length other than 1 must be the same
  length, which is the result's; lengths 1 are stretched.
\<close>

definition broadcast_shape :: "nat list \<Rightarrow> nat option" where
  "broadcast_shape ns =
     (case filter (\<lambda>n. n \<noteq> 1) ns of
        [] \<Rightarrow> Some 1
      | d # ds \<Rightarrow> if list_all (\<lambda>n. n = d) ds then Some d else None)"

definition broadcast_to :: "real list \<Rightarrow> nat \<Rightarrow> real list" where
  "broadcast_to a n = (if length a = 1 then replicate n (hd a) else a)"

definition np_clip :: "real list \<Rightarrow> real list \<Rightarrow> real list \<Rightarrow> py_error + real list" where
  "np_clip a a_min a_max =
     (case broadcast_shape [length a, length a_min, length a_max] of
        None \<Rightarrow> Inl (ValueError ''operands could not be broadcast together'')
      | Some n \<Rightarrow>
          Inr (map (\<lambda>(x, lo, hi). clip_scalar x lo hi)
                 (zip (broadcast_to a n) (zip (broadcast_to a_min n) (broadcast_to a_max n)))))"

text \<open>\<open>gym.spaces.Box(low, high)\<close>: the two bound vectors.\<close>

record box =
  low :: "real list"
  high :: "real list"

subsection \<open>The external parties\<close>

text \<open>
  The \<open>JointLimits\<close> message of the SDK, received once by the constructor; the adapter
  reads three of its fields.
\<close>

record JointLimits =
  joint_names :: "string list"
  velocity :: "real list"
  effort :: "real list"

text \<open>
  The SDK's \<open>Point\<close> and \<open>Quaternion\<close> named tuples; \<open>np.array\<close> lists their fields.
\<close>

datatype point = Point real real real

datatype quaternion = Quaternion real real real real

fun np_array_point :: "point \<Rightarrow> real list" where
  "np_array_point (Point x y z) = [x, y, z]"

fun np_array_quaternion :: "quaternion \<Rightarrow> real list" where
  "np_array_quaternion (Quaternion x y z w) = [x, y, z, w]"

text \<open>What the limb handle answers: the three joint maps and the end-point readings.\<close>

record limb_state =
  joint_angles :: dict
  joint_velocities :: dict
  joint_efforts :: dict
  endpoint_pose_position :: point
  endpoint_pose_orientation :: quaternion
  endpoint_velocity_linear :: point
  endpoint_velocity_angular :: point
  endpoint_effort_force :: point
  endpoint_effort_torque :: point

text \<open>The request sent to the validity service (\<open>rs.joint_state\<close>) and its response.\<close>

record robot_state =
  joint_state_name :: "string list"
  joint_state_position :: "real list"

record validity_response =
  valid :: bool

text \<open>
  Everything outside the adapter: the limb, \<open>rospy.is_shutdown()\<close>, and the validity
  service \<open>StateValidity.get_state_validity\<close>, which the adapter only calls.
\<close>

record world =
  limb :: limb_state
  is_shutdown :: bool
  get_state_validity :: "robot_state \<Rightarrow> string \<Rightarrow> validity_response"

text \<open>The calls that reach the SDK, as the methods below make them.\<close>

datatype sdk_call =
    SetJointPositions dict
  | SetJointVelocities dict
  | SetJointTorques dict
  | MoveToJointPositions dict real
  | GripperOpen
  | GripperSetPosition real
  | RospySleep real

fun is_gripper_call :: "sdk_call \<Rightarrow> bool" where
  "is_gripper_call GripperOpen = True"
| "is_gripper_call (GripperSetPosition _) = True"
| "is_gripper_call _ = False"

fun is_joint_write :: "sdk_call \<Rightarrow> bool" where
  "is_joint_write (SetJointPositions _) = True"
| "is_joint_write (SetJointVelocities _) = True"
| "is_joint_write (SetJointTorques _) = True"
| "is_joint_write _ = False"

subsection \<open>The adapter object and its constructor\<close>

record sawyer =
  initial_joint_pos :: dict
  control_mode :: string
  used_joints :: "string list"
  joint_limits :: JointLimits
  moveit_group :: string

text \<open>The loop of \<open>__init__\<close>: every key of \<open>initial_joint_pos\<close> is appended.\<close>

fun append_joints :: "string list \<Rightarrow> string list \<Rightarrow> string list" where
  "append_joints [] used = used"
| "append_joints (joint # rest) used = append_joints rest (used @ [joint])"

text \<open>
  \<open>Sawyer.__init__\<close>; the last argument is the message \<open>rospy.wait_for_message\<close>
  delivers. No statement of the constructor looks at the control mode.
\<close>

definition Sawyer_init :: "dict \<Rightarrow> string \<Rightarrow> string \<Rightarrow> JointLimits \<Rightarrow> sawyer" where
  "Sawyer_init initial_joint_pos' moveit_group' control_mode' limits =
     \<lparr> initial_joint_pos = initial_joint_pos',
       control_mode = control_mode',
       used_joints = append_joints (map fst initial_joint_pos') [],
       joint_limits = limits,
       moveit_group = moveit_group' \<rparr>"

subsection \<open>Safety check\<close>

text \<open>
  The loop shared by \<open>safety_check\<close> and \<open>safety_predict\<close>: for every key of the map,
  append the key and the value looked up under it.
\<close>

fun append_joint_state :: "string list \<Rightarrow> dict \<Rightarrow> robot_state \<Rightarrow> py_error + robot_state" where
  "append_joint_state [] d rs = Inr rs"
| "append_joint_state (joint # rest) d rs =
     (case map_of d joint of
        None \<Rightarrow> Inl (KeyError joint)
      | Some p \<Rightarrow>
          append_joint_state rest d
            (rs\<lparr> joint_state_name := joint_state_name rs @ [joint],
                 joint_state_position := joint_state_position rs @ [p] \<rparr>))"

definition safety_predict :: "sawyer \<Rightarrow> world \<Rightarrow> dict \<Rightarrow> py_error + bool" where
  "safety_predict s w joint_angles' =
     (case append_joint_state (map fst joint_angles') joint_angles'
             \<lparr> joint_state_name = [], joint_state_position = [] \<rparr> of
        Inl e \<Rightarrow> Inl e
      | Inr rs \<Rightarrow> Inr (valid (get_state_validity w rs (moveit_group s))))"

definition safety_check :: "sawyer \<Rightarrow> world \<Rightarrow> py_error + bool" where
  "safety_check s w =
     (let current_joint_angles = joint_angles (limb w)
      in case append_joint_state (map fst current_joint_angles) current_joint_angles
                \<lparr> joint_state_name = [], joint_state_position = [] \<rparr> of
           Inl e \<Rightarrow> Inl e
         | Inr rs \<Rightarrow> Inr (valid (get_state_validity w rs (moveit_group s))))"

subsection \<open>Reset and observation\<close>

definition move_to_start_position :: "sawyer \<Rightarrow> world \<Rightarrow> (py_error + unit) \<times> sdk_call list" where
  "move_to_start_position s w =
     (if is_shutdown w then (Inr (), [])
      else (Inr (),
            [MoveToJointPositions (initial_joint_pos s) 5.0, GripperOpen, RospySleep 0.01]))"

definition reset :: "sawyer \<Rightarrow> world \<Rightarrow> (py_error + unit) \<times> sdk_call list" where
  "reset s w = move_to_start_position s w"

definition dict_values :: "dict \<Rightarrow> real list" where
  "dict_values d = map snd d"

definition get_observation :: "sawyer \<Rightarrow> world \<Rightarrow> real list" where
  "get_observation s w =
     (let gripper_pos = np_array_point (endpoint_pose_position (limb w));
          gripper_ori = np_array_quaternion (endpoint_pose_orientation (limb w));
          gripper_lvel = np_array_point (endpoint_velocity_linear (limb w));
          gripper_avel = np_array_point (endpoint_velocity_angular (limb w));
          gripper_force = np_array_point (endpoint_effort_force (limb w));
          gripper_torque = np_array_point (endpoint_effort_torque (limb w));
          robot_joint_angles = dict_values (joint_angles (limb w));
          robot_joint_velocities = dict_values (joint_velocities (limb w));
          robot_joint_efforts = dict_values (joint_efforts (limb w))
      in concat [gripper_pos, gripper_ori, gripper_lvel, gripper_avel, gripper_force,
                 gripper_torque, robot_joint_angles, robot_joint_velocities,
                 robot_joint_efforts])"

text \<open>
  \<open>observation_space\<close> is a box with bounds \<open>-inf\<close> and \<open>inf\<close> of the observation's
  shape; the shape is what is modelled.
\<close>

definition observation_space :: "sawyer \<Rightarrow> world \<Rightarrow> nat" where
  "observation_space s w = length (get_observation s w)"

subsection \<open>Spaces\<close>

definition joint_position_space :: box where
  "joint_position_space =
     \<lparr> low = [-3.0503, -3.8095, -3.0426, -3.0439, -2.9761, -2.9761, -4.7124],
       high = [3.0503, 2.2736, 3.0426, 3.0439, 2.9761, 2.9761, 4.7124] \<rparr>"

text \<open>
  The loop of \<open>action_space\<close>. The locals \<open>lower_bounds\<close> and \<open>upper_bounds\<close> are
  assigned only inside the loop, from their own previous value; they are \<open>None\<close> while
  unbound, and reading an unbound local raises \<open>UnboundLocalError\<close>. The position branch
  returns from inside the loop. The first equation is the statement after the loop.
\<close>

fun action_space_loop ::
  "sawyer \<Rightarrow> string list \<Rightarrow> real list option \<Rightarrow> real list option \<Rightarrow> py_error + box" where
  "action_space_loop s [] lower_bounds upper_bounds =
     (case lower_bounds of
        None \<Rightarrow> Inl (UnboundLocalError ''lower_bounds'')
      | Some lb \<Rightarrow>
          (case upper_bounds of
             None \<Rightarrow> Inl (UnboundLocalError ''upper_bounds'')
           | Some ub \<Rightarrow> Inr \<lparr> low = lb @ [0], high = ub @ [100] \<rparr>))"
| "action_space_loop s (joint # rest) lower_bounds upper_bounds =
     (case list_index (joint_names (joint_limits s)) joint of
        Inl e \<Rightarrow> Inl e
      | Inr joint_idx \<Rightarrow>
          if control_mode s = ''position'' then
            Inr \<lparr> low = np_full 7 (-0.02), high = np_full 7 0.02 \<rparr>
          else if control_mode s = ''velocity'' then
            (let velocity_limit =
                   map (\<lambda>v. v * 0.1)
                     (py_slice (velocity (joint_limits s)) joint_idx (joint_idx + 1))
             in case lower_bounds of
                  None \<Rightarrow> Inl (UnboundLocalError ''lower_bounds'')
                | Some lb \<Rightarrow>
                    (case upper_bounds of
                       None \<Rightarrow> Inl (UnboundLocalError ''upper_bounds'')
                     | Some ub \<Rightarrow>
                         action_space_loop s rest
                           (Some (lb @ map uminus velocity_limit))
                           (Some (ub @ velocity_limit))))
          else if control_mode s = ''effort'' then
            (let effort_limit =
                   py_slice (effort (joint_limits s)) joint_idx (joint_idx + 1)
             in case lower_bounds of
                  None \<Rightarrow> Inl (UnboundLocalError ''lower_bounds'')
                | Some lb \<Rightarrow>
                    (case upper_bounds of
                       None \<Rightarrow> Inl (UnboundLocalError ''upper_bounds'')
                     | Some ub \<Rightarrow>
                         action_space_loop s rest
                           (Some (lb @ map uminus effort_limit))
                           (Some (ub @ effort_limit))))
          else
            Inl (ValueError (''Control mode '' @ control_mode s @ '' is not known!'')))"

definition action_space :: "sawyer \<Rightarrow> py_error + box" where
  "action_space s = action_space_loop s (used_joints s) None None"

subsection \<open>Commands\<close>

text \<open>
  \<open>_set_limb_joint_positions\<close>: the only place with the factor 0.1 on a position delta.
  It takes absolute targets, overwrites each with the damped one, and writes them when
  the validity service agrees. No method of the class calls it.
\<close>

fun damp_joint_angle_cmds :: "string list \<Rightarrow> dict \<Rightarrow> dict \<Rightarrow> py_error + dict" where
  "damp_joint_angle_cmds [] current_joint_angles joint_angle_cmds = Inr joint_angle_cmds"
| "damp_joint_angle_cmds (joint # rest) current_joint_angles joint_angle_cmds =
     (case map_of joint_angle_cmds joint of
        None \<Rightarrow> Inl (KeyError joint)
      | Some c \<Rightarrow>
          (case map_of current_joint_angles joint of
             None \<Rightarrow> Inl (KeyError joint)
           | Some a \<Rightarrow>
               (let joint_cmd_delta = c - a
                in damp_joint_angle_cmds rest current_joint_angles
                     (AList.update joint (a + joint_cmd_delta * 0.1) joint_angle_cmds))))"

definition set_limb_joint_positions ::
  "sawyer \<Rightarrow> world \<Rightarrow> dict \<Rightarrow> (py_error + unit) \<times> sdk_call list" where
  "set_limb_joint_positions s w joint_angle_cmds =
     (case damp_joint_angle_cmds (map fst joint_angle_cmds) (joint_angles (limb w))
             joint_angle_cmds of
        Inl e \<Rightarrow> (Inl e, [])
      | Inr cmds \<Rightarrow>
          (case safety_predict s w cmds of
             Inl e \<Rightarrow> (Inl e, [])
           | Inr safe \<Rightarrow> if safe then (Inr (), [SetJointPositions cmds]) else (Inr (), [])))"

definition set_limb_joint_velocities :: "dict \<Rightarrow> (py_error + unit) \<times> sdk_call list" where
  "set_limb_joint_velocities joint_angle_cmds = (Inr (), [SetJointVelocities joint_angle_cmds])"

definition set_limb_joint_torques :: "dict \<Rightarrow> (py_error + unit) \<times> sdk_call list" where
  "set_limb_joint_torques joint_angle_cmds = (Inr (), [SetJointTorques joint_angle_cmds])"

definition set_gripper_position :: "real \<Rightarrow> (py_error + unit) \<times> sdk_call list" where
  "set_gripper_position position = (Inr (), [GripperSetPosition position])"

text \<open>
  The loop of \<open>_send_incremental_position_command\<close>, over the items of the limb's
  joint-angle map: the index from the name, then \<open>p + jpos[j]\<close>, then the two bounds.
\<close>

fun incremental_targets :: "dict \<Rightarrow> dict \<Rightarrow> box \<Rightarrow> dict \<Rightarrow> py_error + dict" where
  "incremental_targets [] jpos joint_limits' commands = Inr commands"
| "incremental_targets ((j, p) # rest) jpos joint_limits' commands =
     (case joint_index j of
        Inl e \<Rightarrow> Inl e
      | Inr index \<Rightarrow>
          (case map_of jpos j of
             None \<Rightarrow> Inl (KeyError j)
           | Some d \<Rightarrow>
               (case np_index (low joint_limits') index of
                  Inl e \<Rightarrow> Inl e
                | Inr lo \<Rightarrow>
                    (case np_index (high joint_limits') index of
                       Inl e \<Rightarrow> Inl e
                     | Inr hi \<Rightarrow>
                         incremental_targets rest jpos joint_limits'
                           (AList.update j (clip_scalar (p + d) lo hi) commands)))))"

definition send_incremental_position_command ::
  "sawyer \<Rightarrow> world \<Rightarrow> dict \<Rightarrow> (py_error + unit) \<times> sdk_call list" where
  "send_incremental_position_command s w jpos =
     (case incremental_targets (joint_angles (limb w)) jpos joint_position_space [] of
        Inl e \<Rightarrow> (Inl e, [])
      | Inr commands \<Rightarrow> (Inr (), [SetJointPositions commands]))"

text \<open>The loop of \<open>send_command\<close> that names the entries of the clipped vector.\<close>

fun assign_joint_commands :: "string list \<Rightarrow> real list \<Rightarrow> nat \<Rightarrow> dict \<Rightarrow> py_error + dict" where
  "assign_joint_commands [] commands i joint_commands = Inr joint_commands"
| "assign_joint_commands (joint # rest) commands i joint_commands =
     (case np_index commands i of
        Inl e \<Rightarrow> Inl e
      | Inr c \<Rightarrow>
          assign_joint_commands rest commands (i + 1) (AList.update joint c joint_commands))"

definition send_command ::
  "sawyer \<Rightarrow> world \<Rightarrow> real list \<Rightarrow> (py_error + unit) \<times> sdk_call list" where
  "send_command s w commands =
     (case action_space s of
        Inl e \<Rightarrow> (Inl e, [])
      | Inr space \<Rightarrow>
          (case np_clip commands (low space) (high space) of
             Inl e \<Rightarrow> (Inl e, [])
           | Inr clipped \<Rightarrow>
               (case assign_joint_commands (used_joints s) clipped 0 [] of
                  Inl e \<Rightarrow> (Inl e, [])
                | Inr joint_commands \<Rightarrow>
                    if control_mode s = ''position'' then
                      send_incremental_position_command s w joint_commands
                    else if control_mode s = ''velocity'' then
                      set_limb_joint_velocities joint_commands
                    else if control_mode s = ''effort'' then
                      set_limb_joint_torques joint_commands
                    else (Inr (), []))))"

subsection \<open>The methods as programs on the adapter object\<close>

text \<open>
  The functions above give a method's result and its SDK calls from the object it is
  called on. Here the method bodies are written out as programs that run on the object
  and may change it; the two are proved to agree below. The state a method runs in: the
  attributes of \<open>self\<close> and the SDK calls made so far.
\<close>

record pystate =
  self :: sawyer
  sdk_calls :: "sdk_call list"

text \<open>
  A method body is a program over this state: it returns a value or raises, and hands on
  the state it leaves behind. \<open>read_self\<close> is an attribute read, \<open>write_self\<close> an
  attribute assignment or an in-place update of the object an attribute holds, \<open>sdk\<close> a
  call into the SDK, \<open>lift_py\<close> a computation on locals, arguments and readings
  of the limb that may raise.
\<close>

type_synonym 'a py = "pystate \<Rightarrow> (py_error + 'a) \<times> pystate"

definition return_py :: "'a \<Rightarrow> 'a py" where
  "return_py x = (\<lambda>st. (Inr x, st))"

definition raise_py :: "py_error \<Rightarrow> 'a py" where
  "raise_py e = (\<lambda>st. (Inl e, st))"

definition bind_py :: "'a py \<Rightarrow> ('a \<Rightarrow> 'b py) \<Rightarrow> 'b py" where
  "bind_py m f =
     (\<lambda>st. case m st of (Inl e, st') \<Rightarrow> (Inl e, st') | (Inr x, st') \<Rightarrow> f x st')"

definition lift_py :: "py_error + 'a \<Rightarrow> 'a py" where
  "lift_py r = (case r of Inl e \<Rightarrow> raise_py e | Inr x \<Rightarrow> return_py x)"

definition read_self :: "(sawyer \<Rightarrow> 'a) \<Rightarrow> 'a py" where
  "read_self attribute = (\<lambda>st. (Inr (attribute (self st)), st))"

definition write_self :: "(sawyer \<Rightarrow> sawyer) \<Rightarrow> unit py" where
  "write_self assignment = (\<lambda>st. (Inr (), st\<lparr> self := assignment (self st) \<rparr>))"

definition sdk :: "sdk_call \<Rightarrow> unit py" where
  "sdk c = (\<lambda>st. (Inr (), st\<lparr> sdk_calls := sdk_calls st @ [c] \<rparr>))"

text \<open>
  \<open>__init__\<close>, statement by statement: the attributes are assigned in the source's
  order, and the loop appends to the list \<open>_used_joints\<close> holds.
\<close>

primrec append_joints_py :: "string list \<Rightarrow> unit py" where
  "append_joints_py [] = return_py ()"
| "append_joints_py (joint # rest) =
     bind_py (write_self (\<lambda>s. s\<lparr> used_joints := used_joints s @ [joint] \<rparr>))
       (\<lambda>_. append_joints_py rest)"

definition Sawyer_init_py :: "dict \<Rightarrow> string \<Rightarrow> string \<Rightarrow> JointLimits \<Rightarrow> unit py" where
  "Sawyer_init_py initial_joint_pos' moveit_group' control_mode' limits =
     bind_py (write_self (\<lambda>s. s\<lparr> initial_joint_pos := initial_joint_pos' \<rparr>)) (\<lambda>_.
     bind_py (write_self (\<lambda>s. s\<lparr> control_mode := control_mode' \<rparr>)) (\<lambda>_.
     bind_py (write_self (\<lambda>s. s\<lparr> used_joints := [] \<rparr>)) (\<lambda>_.
     bind_py (append_joints_py (map fst initial_joint_pos')) (\<lambda>_.
     bind_py (write_self (\<lambda>s. s\<lparr> joint_limits := limits \<rparr>)) (\<lambda>_.
     write_self (\<lambda>s. s\<lparr> moveit_group := moveit_group' \<rparr>))))))"

text \<open>
  The other methods, statement by statement. Loops that touch only locals and arguments
  are the functions above; the loop of \<open>action_space\<close> reads attributes in its body
  and is written out again.
\<close>

definition safety_predict_py :: "world \<Rightarrow> dict \<Rightarrow> bool py" where
  "safety_predict_py w joint_angles' =
     bind_py (lift_py (append_joint_state (map fst joint_angles') joint_angles'
                         \<lparr> joint_state_name = [], joint_state_position = [] \<rparr>)) (\<lambda>rs.
     bind_py (read_self moveit_group) (\<lambda>moveit_group'.
     return_py (valid (get_state_validity w rs moveit_group'))))"

definition safety_check_py :: "world \<Rightarrow> bool py" where
  "safety_check_py w =
     (let current_joint_angles = joint_angles (limb w)
      in bind_py (lift_py (append_joint_state (map fst current_joint_angles)
                             current_joint_angles
                             \<lparr> joint_state_name = [], joint_state_position = [] \<rparr>)) (\<lambda>rs.
         bind_py (read_self moveit_group) (\<lambda>moveit_group'.
         return_py (valid (get_state_validity w rs moveit_group')))))"

definition move_to_start_position_py :: "world \<Rightarrow> unit py" where
  "move_to_start_position_py w =
     (if is_shutdown w then return_py ()
      else bind_py (read_self initial_joint_pos) (\<lambda>initial_joint_pos'.
           bind_py (sdk (MoveToJointPositions initial_joint_pos' 5.0)) (\<lambda>_.
           bind_py (sdk GripperOpen) (\<lambda>_.
           sdk (RospySleep 0.01)))))"

definition reset_py :: "world \<Rightarrow> unit py" where
  "reset_py w = move_to_start_position_py w"

definition get_observation_py :: "world \<Rightarrow> real list py" where
  "get_observation_py w =
     (let gripper_pos = np_array_point (endpoint_pose_position (limb w));
          gripper_ori = np_array_quaternion (endpoint_pose_orientation (limb w));
          gripper_lvel = np_array_point (endpoint_velocity_linear (limb w));
          gripper_avel = np_array_point (endpoint_velocity_angular (limb w));
          gripper_force = np_array_point (endpoint_effort_force (limb w));
          gripper_torque = np_array_point (endpoint_effort_torque (limb w));
          robot_joint_angles = dict_values (joint_angles (limb w));
          robot_joint_velocities = dict_values (joint_velocities (limb w));
          robot_joint_efforts = dict_values (joint_efforts (limb w))
      in return_py
           (concat [gripper_pos, gripper_ori, gripper_lvel, gripper_avel, gripper_force,
                    gripper_torque, robot_joint_angles, robot_joint_velocities,
                    robot_joint_efforts]))"

definition observation_space_py :: "world \<Rightarrow> nat py" where
  "observation_space_py w = bind_py (get_observation_py w) (\<lambda>obs. return_py (length obs))"

definition joint_position_space_py :: "box py" where
  "joint_position_space_py = return_py joint_position_space"

text \<open>Reading a local that may be unbound.\<close>

definition read_local :: "string \<Rightarrow> 'a option \<Rightarrow> 'a py" where
  "read_local name v = (case v of None \<Rightarrow> raise_py (UnboundLocalError name) | Some x \<Rightarrow> return_py x)"

primrec action_space_loop_py ::
  "string list \<Rightarrow> real list option \<Rightarrow> real list option \<Rightarrow> box py" where
  "action_space_loop_py [] =
     (\<lambda>lower_bounds upper_bounds.
        bind_py (read_local ''lower_bounds'' lower_bounds) (\<lambda>lb.
        bind_py (read_local ''upper_bounds'' upper_bounds) (\<lambda>ub.
        return_py \<lparr> low = lb @ [0], high = ub @ [100] \<rparr>)))"
| "action_space_loop_py (joint # rest) =
     (\<lambda>lower_bounds upper_bounds.
        bind_py (read_self (\<lambda>s. joint_names (joint_limits s))) (\<lambda>names.
        bind_py (lift_py (list_index names joint)) (\<lambda>joint_idx.
        bind_py (read_self control_mode) (\<lambda>mode.
          if mode = ''position'' then
            return_py \<lparr> low = np_full 7 (-0.02), high = np_full 7 0.02 \<rparr>
          else if mode = ''velocity'' then
            bind_py (read_self (\<lambda>s. velocity (joint_limits s))) (\<lambda>velocity'.
            (let velocity_limit =
                   map (\<lambda>v. v * 0.1) (py_slice velocity' joint_idx (joint_idx + 1))
             in bind_py (read_local ''lower_bounds'' lower_bounds) (\<lambda>lb.
                bind_py (read_local ''upper_bounds'' upper_bounds) (\<lambda>ub.
                action_space_loop_py rest
                  (Some (lb @ map uminus velocity_limit))
                  (Some (ub @ velocity_limit))))))
          else if mode = ''effort'' then
            bind_py (read_self (\<lambda>s. effort (joint_limits s))) (\<lambda>effort'.
            (let effort_limit = py_slice effort' joint_idx (joint_idx + 1)
             in bind_py (read_local ''lower_bounds'' lower_bounds) (\<lambda>lb.
                bind_py (read_local ''upper_bounds'' upper_bounds) (\<lambda>ub.
                action_space_loop_py rest
                  (Some (lb @ map uminus effort_limit))
                  (Some (ub @ effort_limit))))))
          else
            raise_py (ValueError (''Control mode '' @ mode @ '' is not known!''))))))"

definition action_space_py :: "box py" where
  "action_space_py =
     bind_py (read_self used_joints) (\<lambda>used. action_space_loop_py used None None)"

definition send_incremental_position_command_py :: "world \<Rightarrow> dict \<Rightarrow> unit py" where
  "send_incremental_position_command_py w jpos =
     bind_py (lift_py (incremental_targets (joint_angles (limb w)) jpos
                         joint_position_space [])) (\<lambda>commands.
     sdk (SetJointPositions commands))"

definition set_limb_joint_velocities_py :: "dict \<Rightarrow> unit py" where
  "set_limb_joint_velocities_py joint_angle_cmds = sdk (SetJointVelocities joint_angle_cmds)"

definition set_limb_joint_torques_py :: "dict \<Rightarrow> unit py" where
  "set_limb_joint_torques_py joint_angle_cmds = sdk (SetJointTorques joint_angle_cmds)"

definition send_command_py :: "world \<Rightarrow> real list \<Rightarrow> unit py" where
  "send_command_py w commands =
     bind_py action_space_py (\<lambda>space.
     bind_py (lift_py (np_clip commands (low space) (high space))) (\<lambda>clipped.
     bind_py (read_self used_joints) (\<lambda>used.
     bind_py (lift_py (assign_joint_commands used clipped 0 [])) (\<lambda>joint_commands.
     bind_py (read_self control_mode) (\<lambda>mode.
       if mode = ''position'' then send_incremental_position_command_py w joint_commands
       else if mode = ''velocity'' then set_limb_joint_velocities_py joint_commands
       else if mode = ''effort'' then set_limb_joint_torques_py joint_commands
       else return_py ())))))"

text \<open>
  The public operations, and what a sequence of them leaves of the state: an operation
  that raises leaves the state it had reached.
\<close>

datatype operation =
    Reset
  | GetObservation
  | SendCommand "real list"
  | SafetyCheck
  | SafetyPredict dict
  | ActionSpace
  | ObservationSpace
  | JointPositionSpace

fun step :: "world \<Rightarrow> operation \<Rightarrow> pystate \<Rightarrow> pystate" where
  "step w Reset st = snd (reset_py w st)"
| "step w GetObservation st = snd (get_observation_py w st)"
| "step w (SendCommand commands) st = snd (send_command_py w commands st)"
| "step w SafetyCheck st = snd (safety_check_py w st)"
| "step w (SafetyPredict joint_angles') st = snd (safety_predict_py w joint_angles' st)"
| "step w ActionSpace st = snd (action_space_py st)"
| "step w ObservationSpace st = snd (observation_space_py w st)"
| "step w JointPositionSpace st = snd (joint_position_space_py st)"

fun run :: "world \<Rightarrow> operation list \<Rightarrow> pystate \<Rightarrow> pystate" where
  "run w [] st = st"
| "run w (op # ops) st = run w ops (step w op st)"

subsection \<open>Concrete inputs\<close>

text \<open>
  A seven-joint arm at rest, as the Sawyer reports it, and the limits message of its
  joints. All angles are 0 and the commanded value \<open>1/64\<close> is inside the action bounds.
\<close>

definition right_arm_joints :: "string list" where
  "right_arm_joints =
     [''right_j0'', ''right_j1'', ''right_j2'', ''right_j3'', ''right_j4'', ''right_j5'',
      ''right_j6'']"

definition arm_at_zero :: dict where
  "arm_at_zero = map (\<lambda>j. (j, 0)) right_arm_joints"

definition sawyer_limits :: JointLimits where
  "sawyer_limits =
     \<lparr> joint_names = right_arm_joints,
       velocity = [1.74, 1.328, 1.957, 1.957, 3.485, 3.485, 4.545],
       effort = [80, 80, 40, 40, 9, 9, 9] \<rparr>"

definition limb_at_zero :: limb_state where
  "limb_at_zero =
     \<lparr> joint_angles = arm_at_zero,
       joint_velocities = arm_at_zero,
       joint_efforts = arm_at_zero,
       endpoint_pose_position = Point 0 0 0,
       endpoint_pose_orientation = Quaternion 0 0 0 1,
       endpoint_velocity_linear = Point 0 0 0,
       endpoint_velocity_angular = Point 0 0 0,
       endpoint_effort_force = Point 0 0 0,
       endpoint_effort_torque = Point 0 0 0 \<rparr>"

definition running_world :: world where
  "running_world =
     \<lparr> limb = limb_at_zero,
       is_shutdown = False,
       get_state_validity = (\<lambda>rs group. \<lparr> valid = True \<rparr>) \<rparr>"

definition small_step :: "real list" where
  "small_step = replicate 7 (1 / 64)"

text \<open>A two-joint limb, and adapters that control one or both of its joints.\<close>

definition two_joint_limb :: limb_state where
  "two_joint_limb =
     limb_at_zero
       \<lparr> joint_angles := [(''right_j0'', 1 / 2), (''right_j1'', 1 / 4)],
         joint_velocities := [(''right_j0'', 0), (''right_j1'', 0)],
         joint_efforts := [(''right_j0'', 0), (''right_j1'', 0)] \<rparr>"

definition two_joint_world :: world where
  "two_joint_world = running_world \<lparr> limb := two_joint_limb \<rparr>"

text \<open>
  Adapters over the seven-joint limits message: one controlling the whole arm in a given
  mode, position adapters controlling one, two and no joints, and one built with a joint the
  limits message does not list and a control mode that does not exist.
\<close>

definition full_arm_adapter :: "string \<Rightarrow> sawyer" where
  "full_arm_adapter mode = Sawyer_init arm_at_zero ''right_arm'' mode sawyer_limits"

definition one_joint_adapter :: sawyer where
  "one_joint_adapter =
     Sawyer_init [(''right_j0'', 0)] ''right_arm'' ''position'' sawyer_limits"

definition two_joint_adapter :: sawyer where
  "two_joint_adapter =
     Sawyer_init [(''right_j0'', 0), (''right_j1'', 0)] ''right_arm'' ''position''
       sawyer_limits"

definition unlisted_joint_adapter :: sawyer where
  "unlisted_joint_adapter = Sawyer_init [(''foo'', 0)] ''right_arm'' ''bogus'' sawyer_limits"

definition no_joint_adapter :: sawyer where
  "no_joint_adapter = Sawyer_init [] ''right_arm'' ''position'' sawyer_limits"

text \<open>A world that has shut down, and one whose validity service has an opinion.\<close>

definition shutdown_world :: world where
  "shutdown_world = running_world \<lparr> is_shutdown := True \<rparr>"

definition cautious_world :: world where
  "cautious_world =
     two_joint_world
       \<lparr> get_state_validity :=
           (\<lambda>rs group. \<lparr> valid = list_all (\<lambda>p. \<bar>p\<bar> \<le> 1) (joint_state_position rs) \<rparr>) \<rparr>"

section \<open>Properties\<close>

lemmas concrete_inputs =
  right_arm_joints_def arm_at_zero_def sawyer_limits_def limb_at_zero_def running_world_def
  small_step_def two_joint_limb_def two_joint_world_def full_arm_adapter_def
  one_joint_adapter_def two_joint_adapter_def unlisted_joint_adapter_def
  no_joint_adapter_def shutdown_world_def
  cautious_world_def

subsection \<open>Construction\<close>

lemma append_joints_eq: "append_joints js used = used @ js"
  by (induction js arbitrary: used) auto

lemma used_joints_init: "used_joints (Sawyer_init d g m l) = map fst d"
  by (simp add: Sawyer_init_def append_joints_eq)

lemma control_mode_init: "control_mode (Sawyer_init d g m l) = m"
  by (simp add: Sawyer_init_def)

lemma joint_limits_init: "joint_limits (Sawyer_init d g m l) = l"
  by (simp add: Sawyer_init_def)

subsection \<open>Reset\<close>

text \<open>
  C7: when the ROS runtime reports shutdown, \<open>reset\<close> returns normally and makes no
  SDK call; otherwise it moves the arm to the initial joint configuration (timeout 5
  seconds), opens the gripper and sleeps.
\<close>

theorem reset_shutdown:
  "reset s w =
     (Inr (),
      if is_shutdown w then []
      else [MoveToJointPositions (initial_joint_pos s) 5, GripperOpen, RospySleep 0.01])"
  by (simp add: reset_def move_to_start_position_def)

theorem reset_shutdown_witness:
  "reset one_joint_adapter shutdown_world = (Inr (), [])
   \<and> reset one_joint_adapter running_world =
       (Inr (), [MoveToJointPositions [(''right_j0'', 0)] 5, GripperOpen, RospySleep 0.01])"
  using reset_shutdown [of one_joint_adapter shutdown_world]
    reset_shutdown [of one_joint_adapter running_world]
  by (simp add: concrete_inputs Sawyer_init_def)

subsection \<open>Safety check\<close>

lemma append_joint_state_keys:
  "set ks \<subseteq> fst ` set d \<Longrightarrow>
   append_joint_state ks d rs =
     Inr (rs\<lparr> joint_state_name := joint_state_name rs @ ks,
               joint_state_position :=
                 joint_state_position rs @ map (\<lambda>k. the (map_of d k)) ks \<rparr>)"
proof (induction ks arbitrary: rs)
  case Nil
  then show ?case by simp
next
  case (Cons k ks)
  from Cons.prems have "k \<in> fst ` set d" by simp
  then obtain p where p: "map_of d k = Some p"
    by (metis domD dom_map_of_conv_image_fst)
  from Cons.prems have "set ks \<subseteq> fst ` set d" by simp
  from Cons.IH [OF this] p show ?case by simp
qed

lemma map_of_keys_values:
  "distinct (map fst d) \<Longrightarrow> map (\<lambda>k. the (map_of d k)) (map fst d) = map snd d"
  by (induction d) (auto simp: rev_image_eqI)

lemma robot_state_of_dict:
  assumes "distinct (map fst d)"
  shows "append_joint_state (map fst d) d \<lparr> joint_state_name = [], joint_state_position = [] \<rparr> =
     Inr \<lparr> joint_state_name = map fst d, joint_state_position = map snd d \<rparr>"
proof -
  have "set (map fst d) \<subseteq> fst ` set d" by simp
  from append_joint_state_keys [OF this] map_of_keys_values [OF assms]
  show ?thesis by simp
qed

text \<open>
  C6: for a hypothetical joint-angle map (\<open>safety_predict\<close>) and for the limb's current
  joint angles (\<open>safety_check\<close>), the adapter sends the validity service the joint names
  and positions of the map, in the map's order, with the configured planning group, and
  returns the service's verdict, whatever it is. The maps are dicts: their keys are
  distinct.
\<close>

theorem safety_verdict:
  assumes "distinct (map fst joint_angles')"
      and "distinct (map fst (joint_angles (limb w)))"
  shows "safety_predict s w joint_angles' =
           Inr (valid (get_state_validity w
                  \<lparr> joint_state_name = map fst joint_angles',
                    joint_state_position = map snd joint_angles' \<rparr> (moveit_group s)))
       \<and> safety_check s w =
           Inr (valid (get_state_validity w
                  \<lparr> joint_state_name = map fst (joint_angles (limb w)),
                    joint_state_position = map snd (joint_angles (limb w)) \<rparr> (moveit_group s)))"
  using assms by (simp add: safety_predict_def safety_check_def robot_state_of_dict Let_def)

theorem safety_verdict_witness:
  "distinct (map fst [(''right_j0'', 2 :: real)])
   \<and> distinct (map fst (joint_angles (limb cautious_world)))
   \<and> safety_predict one_joint_adapter cautious_world [(''right_j0'', 2)] = Inr False
   \<and> safety_check one_joint_adapter cautious_world = Inr True"
proof -
  have d1: "distinct (map fst [(''right_j0'', 2 :: real)])" by simp
  have d2: "distinct (map fst (joint_angles (limb cautious_world)))"
    by (simp add: concrete_inputs)
  from safety_verdict [OF d1 d2, of one_joint_adapter] d1 d2 show ?thesis
    by (simp add: concrete_inputs)
qed

subsection \<open>Observation\<close>

text \<open>
  What \<open>get_observation\<close> returns: the six end-point readings and the values of the
  three joint maps of the limb, in this order. Its length is fixed by the limb's maps.
\<close>

lemma observation_layout:
  "length (get_observation s w) =
     3 + 4 + 3 + 3 + 3 + 3 + length (joint_angles (limb w))
       + length (joint_velocities (limb w)) + length (joint_efforts (limb w))
   \<and> get_observation s w =
       np_array_point (endpoint_pose_position (limb w))
       @ np_array_quaternion (endpoint_pose_orientation (limb w))
       @ np_array_point (endpoint_velocity_linear (limb w))
       @ np_array_point (endpoint_velocity_angular (limb w))
       @ np_array_point (endpoint_effort_force (limb w))
       @ np_array_point (endpoint_effort_torque (limb w))
       @ map snd (joint_angles (limb w))
       @ map snd (joint_velocities (limb w))
       @ map snd (joint_efforts (limb w))"
proof -
  have p: "length (np_array_point a) = 3" for a by (cases a) simp
  have q: "length (np_array_quaternion b) = 4" for b by (cases b) simp
  show ?thesis by (simp add: get_observation_def dict_values_def p q)
qed

text \<open>
  C4: for an adapter with N controlled joints the observation should have
  3+4+3+3+3+3+N+N+N entries, the constructor asking for the joints to control and
  observe. \<open>get_observation\<close> reads the limb's joint maps whole and never looks at the
  controlled joints: with one controlled joint the observation has 25 entries on a limb
  that reports two joints and 40 on one that reports seven, not 22.
\<close>

theorem observation_length_ignores_used_joints:
  "length (used_joints one_joint_adapter) = 1
   \<and> length (get_observation one_joint_adapter two_joint_world) = 25
   \<and> length (get_observation one_joint_adapter two_joint_world) \<noteq>
       3 + 4 + 3 + 3 + 3 + 3 + length (used_joints one_joint_adapter)
         + length (used_joints one_joint_adapter) + length (used_joints one_joint_adapter)
   \<and> length (get_observation one_joint_adapter running_world) = 40"
  by (simp add: get_observation_def dict_values_def used_joints_init concrete_inputs)

subsection \<open>Action space\<close>

lemma list_index_member:
  "x \<in> set xs \<Longrightarrow> \<exists>n. list_index xs x = Inr n"
  by (induction xs) auto

lemma list_index_absent:
  "x \<notin> set xs \<Longrightarrow> list_index xs x = Inl (ValueError (x @ '' is not in list''))"
  by (induction xs) auto

lemma action_space_position:
  assumes "control_mode s = ''position''" and "action_space s = Inr space"
  shows "space = \<lparr> low = replicate 7 (-0.02), high = replicate 7 0.02 \<rparr>"
proof (cases "used_joints s")
  case Nil
  with assms show ?thesis by (simp add: action_space_def)
next
  case (Cons joint rest)
  with assms show ?thesis
    by (auto simp: action_space_def np_full_def split: sum.splits)
qed

lemma action_space_position_ok:
  assumes "control_mode s = ''position''" and "used_joints s \<noteq> []"
      and "hd (used_joints s) \<in> set (joint_names (joint_limits s))"
  shows "action_space s = Inr \<lparr> low = replicate 7 (-0.02), high = replicate 7 0.02 \<rparr>"
proof -
  from assms(2) obtain joint rest where u: "used_joints s = joint # rest"
    by (cases "used_joints s") auto
  with assms(3) obtain n where "list_index (joint_names (joint_limits s)) joint = Inr n"
    using list_index_member by fastforce
  with u assms(1) show ?thesis
    by (simp add: action_space_def np_full_def)
qed

text \<open>
  In velocity and effort mode no adapter has an action space: with no controlled joint
  the statement after the loop reads \<open>lower_bounds\<close> unbound, and with one the first
  iteration either fails to find the joint or reads \<open>lower_bounds\<close> unbound.
\<close>

lemma action_space_velocity_effort_raises:
  assumes "control_mode s = ''velocity'' \<or> control_mode s = ''effort''"
  shows "\<exists>e. action_space s = Inl e"
proof (cases "used_joints s")
  case Nil
  then show ?thesis by (simp add: action_space_def)
next
  case (Cons joint rest)
  with assms show ?thesis
    by (auto simp: action_space_def split: sum.splits)
qed

text \<open>
  C2: the position-mode bounds are -0.02 and 0.02 for each of seven entries; the claimed
  velocity and effort bounds are never returned. For the arm controlled as a whole, with
  the limits message of its seven joints, \<open>action_space\<close> raises \<open>UnboundLocalError\<close>
  for \<open>lower_bounds\<close> in velocity mode and in effort mode.
\<close>

theorem action_space_velocity_effort_unbound:
  "action_space (full_arm_adapter ''velocity'') = Inl (UnboundLocalError ''lower_bounds'')
   \<and> action_space (full_arm_adapter ''effort'') = Inl (UnboundLocalError ''lower_bounds'')
   \<and> action_space (full_arm_adapter ''position'') =
       Inr \<lparr> low = replicate 7 (-0.02), high = replicate 7 0.02 \<rparr>"
  by (simp add: action_space_def used_joints_init control_mode_init joint_limits_init
      np_full_def concrete_inputs)

text \<open>
  C3 (amended): an adapter built with a control mode other than position, velocity and
  effort and at least one controlled joint is constructed without complaint (the
  constructor stores the mode and the joints as given), and requesting \<open>action_space\<close>
  raises a \<open>ValueError\<close>. When the first controlled joint is listed in the joint-limits
  message, it is the configuration error naming the mode; otherwise it is the
  \<open>ValueError\<close> of \<open>list.index\<close> for that joint, raised before the mode is looked
  at, and it does not name the mode.
\<close>

theorem action_space_unknown_mode:
  assumes "control_mode' \<noteq> ''position''" and "control_mode' \<noteq> ''velocity''"
      and "control_mode' \<noteq> ''effort''"
      and "initial_joint_pos' \<noteq> []"
  shows "control_mode (Sawyer_init initial_joint_pos' moveit_group' control_mode' limits) = control_mode'
       \<and> used_joints (Sawyer_init initial_joint_pos' moveit_group' control_mode' limits) =
           map fst initial_joint_pos'
       \<and> (\<exists>msg. action_space (Sawyer_init initial_joint_pos' moveit_group' control_mode' limits) =
                  Inl (ValueError msg))
       \<and> (fst (hd initial_joint_pos') \<in> set (joint_names limits) \<longrightarrow>
            action_space (Sawyer_init initial_joint_pos' moveit_group' control_mode' limits) =
              Inl (ValueError (''Control mode '' @ control_mode' @ '' is not known!'')))
       \<and> (fst (hd initial_joint_pos') \<notin> set (joint_names limits) \<longrightarrow>
            action_space (Sawyer_init initial_joint_pos' moveit_group' control_mode' limits) =
              Inl (ValueError (fst (hd initial_joint_pos') @ '' is not in list'')))"
proof -
  let ?s = "Sawyer_init initial_joint_pos' moveit_group' control_mode' limits"
  from assms(4) obtain item rest where i: "initial_joint_pos' = item # rest"
    by (cases initial_joint_pos') auto
  have u: "used_joints ?s = fst item # map fst rest"
    by (simp add: used_joints_init i)
  have listed: "action_space ?s =
      Inl (ValueError (''Control mode '' @ control_mode' @ '' is not known!''))"
    if "fst item \<in> set (joint_names limits)"
  proof -
    from list_index_member [OF that] obtain n where
      "list_index (joint_names limits) (fst item) = Inr n" by blast
    with assms(1,2,3) show ?thesis
      unfolding action_space_def u
      by (simp add: control_mode_init joint_limits_init)
  qed
  have unlisted: "action_space ?s = Inl (ValueError (fst item @ '' is not in list''))"
    if "fst item \<notin> set (joint_names limits)"
    using list_index_absent [OF that]
    unfolding action_space_def u
    by (simp add: joint_limits_init)
  from listed unlisted have "\<exists>msg. action_space ?s = Inl (ValueError msg)"
    by (cases "fst item \<in> set (joint_names limits)") auto
  with listed unlisted i show ?thesis
    by (simp add: control_mode_init used_joints_init)
qed

theorem action_space_unknown_mode_witness:
  "''bogus'' \<noteq> ''position'' \<and> ''bogus'' \<noteq> ''velocity'' \<and> ''bogus'' \<noteq> ''effort''
   \<and> arm_at_zero \<noteq> []
   \<and> fst (hd arm_at_zero) \<in> set (joint_names sawyer_limits)
   \<and> action_space (full_arm_adapter ''bogus'') =
       Inl (ValueError ''Control mode bogus is not known!'')
   \<and> [(''foo'', 0 :: real)] \<noteq> []
   \<and> fst (hd [(''foo'', 0 :: real)]) \<notin> set (joint_names sawyer_limits)
   \<and> action_space unlisted_joint_adapter = Inl (ValueError ''foo is not in list'')"
proof -
  have m: "''bogus'' \<noteq> ''position''" "''bogus'' \<noteq> ''velocity''" "''bogus'' \<noteq> ''effort''"
    by simp_all
  have n: "arm_at_zero \<noteq> []" by (simp add: concrete_inputs)
  have l: "fst (hd arm_at_zero) \<in> set (joint_names sawyer_limits)"
    by (simp add: concrete_inputs)
  from action_space_unknown_mode [OF m n, of "''right_arm''" sawyer_limits] l
  have a: "action_space (full_arm_adapter ''bogus'') =
       Inl (ValueError ''Control mode bogus is not known!'')"
    by (simp add: full_arm_adapter_def)
  have n': "[(''foo'', 0 :: real)] \<noteq> []" by simp
  have l': "fst (hd [(''foo'', 0 :: real)]) \<notin> set (joint_names sawyer_limits)"
    by (simp add: sawyer_limits_def right_arm_joints_def)
  from action_space_unknown_mode [OF m n', of "''right_arm''" sawyer_limits] l'
  have b: "action_space unlisted_joint_adapter = Inl (ValueError ''foo is not in list'')"
    by (simp add: unlisted_joint_adapter_def)
  from m n l a n' l' b show ?thesis by simp
qed

text \<open>
  With the single controlled joint \<open>foo\<close>, which the limits message does not list, and
  the control mode \<open>bogus\<close>, the error raised does not name the mode.
\<close>

theorem action_space_unknown_mode_counterexample:
  "control_mode unlisted_joint_adapter = ''bogus''
   \<and> used_joints unlisted_joint_adapter = [''foo'']
   \<and> action_space unlisted_joint_adapter = Inl (ValueError ''foo is not in list'')
   \<and> action_space unlisted_joint_adapter \<noteq>
       Inl (ValueError ''Control mode bogus is not known!'')"
  by (simp add: action_space_def used_joints_init control_mode_init joint_limits_init
      concrete_inputs)

subsection \<open>The loops of \<open>send_command\<close>\<close>

lemma np_clip_seven:
  assumes "np_clip a (replicate 7 lo) (replicate 7 hi) = Inr clipped"
  shows "(length a = 7 \<or> length a = 1) \<and> length clipped = 7
         \<and> (\<forall>k<7. clipped ! k = clip_scalar (broadcast_to a 7 ! k) lo hi)"
proof -
  from assms have len: "length a = 7 \<or> length a = 1"
    by (auto simp: np_clip_def broadcast_shape_def split: if_splits option.splits list.splits)
  then have bs: "broadcast_shape [length a, length (replicate 7 lo), length (replicate 7 hi)] = Some 7"
    by (auto simp: broadcast_shape_def)
  have la: "length (broadcast_to a 7) = 7"
    using len by (auto simp: broadcast_to_def)
  have r: "broadcast_to (replicate 7 v) 7 = replicate 7 v" for v :: real
    by (simp add: broadcast_to_def)
  from assms bs have c: "clipped = map (\<lambda>(x, l, h). clip_scalar x l h)
        (zip (broadcast_to a 7) (zip (replicate 7 lo) (replicate 7 hi)))"
    by (simp add: np_clip_def r)
  show ?thesis
  proof (intro conjI allI impI)
    show "length a = 7 \<or> length a = 1" by (rule len)
    show "length clipped = 7" by (simp add: c la)
    fix k :: nat assume "k < 7"
    then show "clipped ! k = clip_scalar (broadcast_to a 7 ! k) lo hi"
      by (simp add: c la)
  qed
qed

lemma np_clip_seven_ok:
  assumes "length a = 7 \<or> length a = 1"
  shows "\<exists>clipped. np_clip a (replicate 7 lo) (replicate 7 hi) = Inr clipped"
  using assms by (auto simp: np_clip_def broadcast_shape_def)

lemma assign_joint_commands_other:
  "assign_joint_commands used cs i acc = Inr jc \<Longrightarrow> j \<notin> set used \<Longrightarrow> map_of jc j = map_of acc j"
proof (induction used arbitrary: i acc)
  case Nil
  then show ?case by simp
next
  case (Cons joint rest)
  from Cons.prems(1) obtain c where c: "np_index cs i = Inr c"
    and r: "assign_joint_commands rest cs (i + 1) (AList.update joint c acc) = Inr jc"
    by (auto split: sum.splits)
  from Cons.prems(2) have "j \<notin> set rest" and "j \<noteq> joint" by auto
  from Cons.IH [OF r \<open>j \<notin> set rest\<close>] \<open>j \<noteq> joint\<close> show ?case
    by (simp add: update_conv')
qed

lemma assign_joint_commands_lookup:
  "assign_joint_commands used cs i acc = Inr jc \<Longrightarrow> distinct used \<Longrightarrow> k < length used \<Longrightarrow>
     i + k < length cs \<and> map_of jc (used ! k) = Some (cs ! (i + k))"
proof (induction used arbitrary: i acc k)
  case Nil
  then show ?case by simp
next
  case (Cons joint rest)
  from Cons.prems(1) obtain c where c: "np_index cs i = Inr c"
    and r: "assign_joint_commands rest cs (i + 1) (AList.update joint c acc) = Inr jc"
    by (auto split: sum.splits)
  from c have ci: "i < length cs" "c = cs ! i"
    by (auto simp: np_index_def split: if_splits)
  from Cons.prems(2) have d: "distinct rest" and n: "joint \<notin> set rest" by auto
  show ?case
  proof (cases k)
    case 0
    from assign_joint_commands_other [OF r n] ci 0 show ?thesis
      by (simp add: update_conv')
  next
    case (Suc k')
    with Cons.prems(3) have "k' < length rest" by simp
    from Cons.IH [OF r d this] Suc show ?thesis by simp
  qed
qed

lemma assign_joint_commands_dom:
  "assign_joint_commands used cs i acc = Inr jc \<Longrightarrow>
     dom (map_of jc) = dom (map_of acc) \<union> set used"
proof (induction used arbitrary: i acc)
  case Nil
  then show ?case by simp
next
  case (Cons joint rest)
  from Cons.prems obtain c where
    r: "assign_joint_commands rest cs (i + 1) (AList.update joint c acc) = Inr jc"
    by (auto split: sum.splits)
  from Cons.IH [OF r] show ?case
    by (auto simp: update_conv')
qed

lemma assign_joint_commands_ok:
  "i + length used \<le> length cs \<Longrightarrow> \<exists>jc. assign_joint_commands used cs i acc = Inr jc"
proof (induction used arbitrary: i acc)
  case Nil
  then show ?case by simp
next
  case (Cons joint rest)
  then have "i < length cs" and "(i + 1) + length rest \<le> length cs" by auto
  with Cons.IH [of "i + 1"] show ?case
    by (simp add: np_index_def)
qed

lemma incremental_targets_other:
  "incremental_targets items jpos bounds acc = Inr cmd \<Longrightarrow> j \<notin> fst ` set items \<Longrightarrow>
     map_of cmd j = map_of acc j"
proof (induction items arbitrary: acc)
  case Nil
  then show ?case by simp
next
  case (Cons item rest)
  obtain j' p where item: "item = (j', p)" by (cases item)
  from Cons.prems(1) item obtain v where
    r: "incremental_targets rest jpos bounds (AList.update j' v acc) = Inr cmd"
    by (auto split: sum.splits option.splits)
  from Cons.prems(2) item have "j \<notin> fst ` set rest" and "j \<noteq> j'" by auto
  from Cons.IH [OF r \<open>j \<notin> fst ` set rest\<close>] \<open>j \<noteq> j'\<close> show ?case
    by (simp add: update_conv')
qed

lemma incremental_targets_keys:
  "incremental_targets items jpos bounds acc = Inr cmd \<Longrightarrow> distinct (map fst acc @ map fst items) \<Longrightarrow>
     map fst cmd = map fst acc @ map fst items"
proof (induction items arbitrary: acc)
  case Nil
  then show ?case by simp
next
  case (Cons item rest)
  obtain j p where item: "item = (j, p)" by (cases item)
  from Cons.prems(1) item obtain v where
    r: "incremental_targets rest jpos bounds (AList.update j v acc) = Inr cmd"
    by (auto split: sum.splits option.splits)
  from Cons.prems(2) item have k: "map fst (AList.update j v acc) = map fst acc @ [j]"
    by (simp add: update_keys)
  with Cons.prems(2) item have "distinct (map fst (AList.update j v acc) @ map fst rest)"
    by simp
  from Cons.IH [OF r this] k item show ?case by simp
qed

lemma incremental_targets_lookup:
  "incremental_targets items jpos bounds acc = Inr cmd \<Longrightarrow> distinct (map fst items) \<Longrightarrow>
   (j, p) \<in> set items \<Longrightarrow>
     \<exists>index d. joint_index j = Inr index \<and> map_of jpos j = Some d
       \<and> index < length (low bounds) \<and> index < length (high bounds)
       \<and> map_of cmd j = Some (clip_scalar (p + d) (low bounds ! index) (high bounds ! index))"
proof (induction items arbitrary: acc)
  case Nil
  then show ?case by simp
next
  case (Cons item rest)
  obtain j' p' where item: "item = (j', p')" by (cases item)
  from Cons.prems(1) item obtain index d lo hi where
    ji: "joint_index j' = Inr index" and jd: "map_of jpos j' = Some d"
    and lo: "np_index (low bounds) index = Inr lo" and hi: "np_index (high bounds) index = Inr hi"
    and r: "incremental_targets rest jpos bounds
              (AList.update j' (clip_scalar (p' + d) lo hi) acc) = Inr cmd"
    by (auto split: sum.splits option.splits)
  from lo hi have b: "index < length (low bounds)" "index < length (high bounds)"
    "lo = low bounds ! index" "hi = high bounds ! index"
    by (auto simp: np_index_def split: if_splits)
  from Cons.prems(2) item have d': "distinct (map fst rest)" and n: "j' \<notin> fst ` set rest"
    by auto
  show ?case
  proof (cases "(j, p) = (j', p')")
    case True
    from incremental_targets_other [OF r n] True ji jd b show ?thesis
      by (simp add: update_conv')
  next
    case False
    with Cons.prems(3) item have "(j, p) \<in> set rest" by auto
    from Cons.IH [OF r d' this] show ?thesis .
  qed
qed

lemma incremental_targets_defined:
  "incremental_targets items jpos bounds acc = Inr cmd \<Longrightarrow> j \<in> fst ` set items \<Longrightarrow>
     map_of jpos j \<noteq> None"
proof (induction items arbitrary: acc)
  case Nil
  then show ?case by simp
next
  case (Cons item rest)
  obtain j' p where item: "item = (j', p)" by (cases item)
  from Cons.prems(1) item obtain v where
    d: "map_of jpos j' \<noteq> None" and
    r: "incremental_targets rest jpos bounds (AList.update j' v acc) = Inr cmd"
    by (auto split: sum.splits option.splits)
  show ?case
  proof (cases "j = j'")
    case True
    with d show ?thesis by simp
  next
    case False
    with Cons.prems(2) item have "j \<in> fst ` set rest" by auto
    from Cons.IH [OF r this] show ?thesis .
  qed
qed

lemma incremental_targets_KeyError:
  "\<forall>j \<in> fst ` set items. \<exists>index. joint_index j = Inr index
       \<and> index < length (low bounds) \<and> index < length (high bounds) \<Longrightarrow>
   \<exists>j \<in> fst ` set items. map_of jpos j = None \<Longrightarrow>
   \<exists>j \<in> fst ` set items. map_of jpos j = None
       \<and> incremental_targets items jpos bounds acc = Inl (KeyError j)"
proof (induction items arbitrary: acc)
  case Nil
  then show ?case by simp
next
  case (Cons item rest)
  obtain j p where item: "item = (j, p)" by (cases item)
  from Cons.prems(1) item obtain index where
    ji: "joint_index j = Inr index" and b: "index < length (low bounds)" "index < length (high bounds)"
    by auto
  show ?case
  proof (cases "map_of jpos j")
    case None
    with item ji show ?thesis by auto
  next
    case (Some d)
    with Cons.prems(2) item have e: "\<exists>j \<in> fst ` set rest. map_of jpos j = None" by auto
    from Cons.prems(1) have a: "\<forall>j \<in> fst ` set rest. \<exists>index. joint_index j = Inr index
       \<and> index < length (low bounds) \<and> index < length (high bounds)" by auto
    from Cons.IH [OF a e, of "AList.update j (clip_scalar (p + d) (low bounds ! index) (high bounds ! index)) acc"]
      item ji b Some show ?thesis
      by (auto simp: np_index_def)
  qed
qed

subsection \<open>\<open>send_command\<close>\<close>

lemma send_command_position_success:
  assumes "control_mode s = ''position''"
      and "send_command s w commands = (Inr (), calls)"
  obtains clipped jc targets where
    "np_clip commands (replicate 7 (-0.02)) (replicate 7 0.02) = Inr clipped"
    "assign_joint_commands (used_joints s) clipped 0 [] = Inr jc"
    "incremental_targets (joint_angles (limb w)) jc joint_position_space [] = Inr targets"
    "calls = [SetJointPositions targets]"
proof -
  from assms obtain space clipped jc targets where
    sp: "action_space s = Inr space"
    and cl: "np_clip commands (low space) (high space) = Inr clipped"
    and jc: "assign_joint_commands (used_joints s) clipped 0 [] = Inr jc"
    and it: "incremental_targets (joint_angles (limb w)) jc joint_position_space [] = Inr targets"
    and calls: "calls = [SetJointPositions targets]"
    by (auto simp: send_command_def send_incremental_position_command_def split: sum.splits)
  from action_space_position [OF assms(1) sp] cl
  have "np_clip commands (replicate 7 (-0.02)) (replicate 7 0.02) = Inr clipped" by simp
  with jc it calls that show thesis by blast
qed

lemma send_command_error_no_call:
  "send_command s w commands = (Inl e, calls) \<Longrightarrow> calls = []"
  by (auto simp: send_command_def send_incremental_position_command_def
        set_limb_joint_velocities_def set_limb_joint_torques_def
      split: sum.splits if_splits)

lemma send_command_success_covers_limb:
  assumes "control_mode s = ''position''"
      and "send_command s w commands = (Inr (), calls)"
  shows "fst ` set (joint_angles (limb w)) \<subseteq> set (used_joints s)"
proof
  fix j assume j: "j \<in> fst ` set (joint_angles (limb w))"
  from assms obtain clipped jc targets where
    jc: "assign_joint_commands (used_joints s) clipped 0 [] = Inr jc" and
    it: "incremental_targets (joint_angles (limb w)) jc joint_position_space [] = Inr targets"
    by (rule send_command_position_success)
  from incremental_targets_defined [OF it j] have "map_of jc j \<noteq> None" .
  with assign_joint_commands_other [OF jc, of j] show "j \<in> set (used_joints s)"
    by auto
qed

text \<open>The whole arm at rest, commanded \<open>1/64\<close> on every joint in position mode.\<close>

lemma send_command_small_step:
  "send_command (full_arm_adapter ''position'') running_world small_step =
     (Inr (),
      [SetJointPositions
         [(''right_j0'', 1 / 64), (''right_j1'', 1 / 64), (''right_j2'', 1 / 64),
          (''right_j3'', 1 / 64), (''right_j4'', 1 / 64), (''right_j5'', 1 / 64),
          (''right_j6'', 1 / 64)]])"
  by (simp add: send_command_def action_space_def Sawyer_init_def concrete_inputs
      np_full_def np_clip_def broadcast_shape_def broadcast_to_def clip_scalar_def
      send_incremental_position_command_def joint_position_space_def joint_index_def
      np_index_def eval_nat_numeral)

text \<open>
  C5: in velocity and effort mode \<open>send_command\<close> never reaches the SDK's velocity or
  torque write. For the arm controlled as a whole it raises the \<open>UnboundLocalError\<close> of
  \<open>action_space\<close>, its first statement, and makes no SDK call.
\<close>

theorem send_command_velocity_effort_unbound:
  "send_command (full_arm_adapter ''velocity'') running_world small_step =
     (Inl (UnboundLocalError ''lower_bounds''), [])
   \<and> send_command (full_arm_adapter ''effort'') running_world small_step =
     (Inl (UnboundLocalError ''lower_bounds''), [])"
  by (simp add: send_command_def action_space_def used_joints_init control_mode_init
      joint_limits_init concrete_inputs)

text \<open>
  C9: in every control mode and for every input vector, every SDK call \<open>send_command\<close>
  makes is a joint-level position, velocity or torque write; none is a gripper command.
\<close>

theorem send_command_no_gripper:
  "\<forall>c \<in> set (snd (send_command s w commands)). is_joint_write c \<and> \<not> is_gripper_call c"
  by (auto simp: send_command_def send_incremental_position_command_def
        set_limb_joint_velocities_def set_limb_joint_torques_def
      split: sum.splits if_splits)

theorem send_command_no_gripper_witness:
  "set (snd (send_command (full_arm_adapter ''position'') running_world small_step)) \<noteq> {}
   \<and> list_all (\<lambda>c. is_joint_write c \<and> \<not> is_gripper_call c)
        (snd (send_command (full_arm_adapter ''position'') running_world small_step))"
  using send_command_no_gripper [of "full_arm_adapter ''position''" running_world small_step]
  by (simp add: send_command_small_step)

text \<open>
  C1 (amended): in position mode, whenever \<open>send_command\<close> completes it has made exactly
  one SDK call, an absolute position command with one target for every joint the limb
  reports, in the limb's order. The target of a joint is its current angle plus the
  commanded delta of that joint clipped to the action-space bounds -0.02 and 0.02 (with
  no factor 0.1), clipped to the static position bounds selected by the last digit of
  the joint's name. The controlled-joint list and the limb's map have distinct keys.
\<close>

theorem send_command_position_target:
  assumes mode: "control_mode s = ''position''"
      and du: "distinct (used_joints s)"
      and dl: "distinct (map fst (joint_angles (limb w)))"
      and ok: "send_command s w commands = (Inr (), calls)"
  shows "\<exists>targets. calls = [SetJointPositions targets]
      \<and> map fst targets = map fst (joint_angles (limb w))
      \<and> (\<forall>(j, p) \<in> set (joint_angles (limb w)).
            \<exists>k index. k < length (used_joints s) \<and> k < 7 \<and> used_joints s ! k = j
              \<and> joint_index j = Inr index \<and> index < 7
              \<and> map_of targets j =
                  Some (clip_scalar
                          (p + clip_scalar (broadcast_to commands 7 ! k) (-0.02) 0.02)
                          (low joint_position_space ! index)
                          (high joint_position_space ! index)))"
proof -
  from mode ok obtain clipped jc targets where
    cl: "np_clip commands (replicate 7 (-0.02)) (replicate 7 0.02) = Inr clipped" and
    jc: "assign_joint_commands (used_joints s) clipped 0 [] = Inr jc" and
    it: "incremental_targets (joint_angles (limb w)) jc joint_position_space [] = Inr targets" and
    calls: "calls = [SetJointPositions targets]"
    by (rule send_command_position_success)
  note c7 = np_clip_seven [OF cl]
  have keys: "map fst targets = map fst (joint_angles (limb w))"
    using incremental_targets_keys [OF it] dl by simp
  have each: "\<exists>k index. k < length (used_joints s) \<and> k < 7 \<and> used_joints s ! k = j
              \<and> joint_index j = Inr index \<and> index < 7
              \<and> map_of targets j =
                  Some (clip_scalar
                          (p + clip_scalar (broadcast_to commands 7 ! k) (-0.02) 0.02)
                          (low joint_position_space ! index)
                          (high joint_position_space ! index))"
    if jp: "(j, p) \<in> set (joint_angles (limb w))" for j p
  proof -
    from incremental_targets_lookup [OF it dl jp] obtain index d where
      ji: "joint_index j = Inr index" and jd: "map_of jc j = Some d" and
      ib: "index < length (low joint_position_space)" and
      tg: "map_of targets j = Some (clip_scalar (p + d) (low joint_position_space ! index)
             (high joint_position_space ! index))"
      by blast
    from ib have i7: "index < 7" by (simp add: joint_position_space_def)
    from jd assign_joint_commands_other [OF jc, of j] have "j \<in> set (used_joints s)"
      by auto
    then obtain k where k: "k < length (used_joints s)" "used_joints s ! k = j"
      by (auto simp: in_set_conv_nth)
    from assign_joint_commands_lookup [OF jc du k(1)] k(2) jd
    have kc: "k < length clipped" and dk: "d = clipped ! k" by auto
    from kc c7 have k7: "k < 7" by simp
    with c7 dk have "d = clip_scalar (broadcast_to commands 7 ! k) (-0.02) 0.02" by simp
    with k k7 ji i7 tg show ?thesis by blast
  qed
  from calls keys each show ?thesis by blast
qed

theorem send_command_position_target_witness:
  "control_mode (full_arm_adapter ''position'') = ''position''
   \<and> distinct (used_joints (full_arm_adapter ''position''))
   \<and> distinct (map fst (joint_angles (limb running_world)))
   \<and> (\<exists>targets.
         send_command (full_arm_adapter ''position'') running_world small_step =
           (Inr (), [SetJointPositions targets])
         \<and> map fst targets = map fst (joint_angles (limb running_world)))"
proof -
  have m: "control_mode (full_arm_adapter ''position'') = ''position''"
    by (simp add: full_arm_adapter_def control_mode_init)
  have du: "distinct (used_joints (full_arm_adapter ''position''))"
    by (simp add: full_arm_adapter_def used_joints_init arm_at_zero_def right_arm_joints_def)
  have dl: "distinct (map fst (joint_angles (limb running_world)))"
    by (simp add: running_world_def limb_at_zero_def arm_at_zero_def right_arm_joints_def)
  from send_command_position_target [OF m du dl send_command_small_step] m du dl
  show ?thesis
    by (auto simp: send_command_small_step)
qed

text \<open>
  The whole arm at rest, commanded \<open>1/64\<close> on every joint: the target written for each
  joint is \<open>1/64\<close>, where current angle plus 0.1 times the delta is \<open>1/640\<close>.
\<close>

theorem position_target_counterexample:
  "send_command (full_arm_adapter ''position'') running_world small_step =
     (Inr (),
      [SetJointPositions
         [(''right_j0'', 1 / 64), (''right_j1'', 1 / 64), (''right_j2'', 1 / 64),
          (''right_j3'', 1 / 64), (''right_j4'', 1 / 64), (''right_j5'', 1 / 64),
          (''right_j6'', 1 / 64)]])
   \<and> map_of (joint_angles (limb running_world)) ''right_j0'' = Some 0
   \<and> clip_scalar (0 + 0.1 * clip_scalar (1 / 64) (-0.02) 0.02)
        (low joint_position_space ! 0) (high joint_position_space ! 0) = 1 / 640
   \<and> (1 / 64 :: real) \<noteq> 1 / 640"
proof -
  have "map_of (joint_angles (limb running_world)) ''right_j0'' = Some 0"
    by (simp add: running_world_def limb_at_zero_def arm_at_zero_def right_arm_joints_def)
  moreover have "clip_scalar (0 + 0.1 * clip_scalar (1 / 64) (-0.02) 0.02)
        (low joint_position_space ! 0) (high joint_position_space ! 0) = 1 / 640"
    by (simp add: clip_scalar_def joint_position_space_def)
  ultimately show ?thesis
    by (simp add: send_command_small_step)
qed

text \<open>
  C10 (amended): in position mode the position path goes through every joint the limb
  reports and looks each one up among the commanded deltas, which have exactly the
  controlled joints as keys. Whenever some limb joint is not controlled (in particular
  when the controlled joints are a proper subset of the limb's joints), \<open>send_command\<close>
  raises an exception and makes no SDK call; it completes only when every limb joint was
  supplied at construction. The exception is the \<open>KeyError\<close> of a limb joint that is not
  controlled when the statements before the lookup succeed: at least one controlled
  joint, the first of them listed in the joint-limits message, at most seven controlled
  joints, a command vector of seven entries or one, and every limb joint's name ending
  in a digit from 0 to 6.
\<close>

theorem position_path_needs_every_limb_joint:
  assumes mode: "control_mode s = ''position''"
  shows "(\<not> fst ` set (joint_angles (limb w)) \<subseteq> set (used_joints s) \<longrightarrow>
            (\<exists>e. send_command s w commands = (Inl e, [])))
       \<and> ((\<exists>calls. send_command s w commands = (Inr (), calls)) \<longrightarrow>
            fst ` set (joint_angles (limb w)) \<subseteq> set (used_joints s))
       \<and> (\<not> fst ` set (joint_angles (limb w)) \<subseteq> set (used_joints s)
            \<and> used_joints s \<noteq> []
            \<and> hd (used_joints s) \<in> set (joint_names (joint_limits s))
            \<and> length (used_joints s) \<le> 7
            \<and> (length commands = 7 \<or> length commands = 1)
            \<and> (\<forall>j \<in> fst ` set (joint_angles (limb w)). \<exists>index<7. joint_index j = Inr index)
          \<longrightarrow> (\<exists>j \<in> fst ` set (joint_angles (limb w)). j \<notin> set (used_joints s)
                 \<and> send_command s w commands = (Inl (KeyError j), [])))"
proof (intro conjI impI)
  assume n: "\<not> fst ` set (joint_angles (limb w)) \<subseteq> set (used_joints s)"
  obtain r calls where rc: "send_command s w commands = (r, calls)"
    by (cases "send_command s w commands")
  show "\<exists>e. send_command s w commands = (Inl e, [])"
  proof (cases r)
    case (Inl e)
    with rc send_command_error_no_call [of s w commands e calls] show ?thesis by simp
  next
    case (Inr u)
    with rc send_command_success_covers_limb [OF mode, of w commands calls] n
    show ?thesis by simp
  qed
next
  assume "\<exists>calls. send_command s w commands = (Inr (), calls)"
  with send_command_success_covers_limb [OF mode]
  show "fst ` set (joint_angles (limb w)) \<subseteq> set (used_joints s)" by blast
next
  assume a: "\<not> fst ` set (joint_angles (limb w)) \<subseteq> set (used_joints s)
            \<and> used_joints s \<noteq> []
            \<and> hd (used_joints s) \<in> set (joint_names (joint_limits s))
            \<and> length (used_joints s) \<le> 7
            \<and> (length commands = 7 \<or> length commands = 1)
            \<and> (\<forall>j \<in> fst ` set (joint_angles (limb w)). \<exists>index<7. joint_index j = Inr index)"
  from a mode have sp: "action_space s = Inr \<lparr> low = replicate 7 (-0.02), high = replicate 7 0.02 \<rparr>"
    by (simp add: action_space_position_ok)
  from a obtain clipped where
    cl: "np_clip commands (replicate 7 (-0.02)) (replicate 7 0.02) = Inr clipped"
    using np_clip_seven_ok by blast
  from np_clip_seven [OF cl] a have "0 + length (used_joints s) \<le> length clipped" by simp
  from assign_joint_commands_ok [OF this] obtain jc where
    jc: "assign_joint_commands (used_joints s) clipped 0 [] = Inr jc" by blast
  have none: "j \<notin> set (used_joints s)" if "map_of jc j = None" for j
    using assign_joint_commands_dom [OF jc] that by auto
  from a have wf: "\<forall>j \<in> fst ` set (joint_angles (limb w)). \<exists>index. joint_index j = Inr index
       \<and> index < length (low joint_position_space) \<and> index < length (high joint_position_space)"
  proof -
    have l: "length (low joint_position_space) = 7" "length (high joint_position_space) = 7"
      by (simp_all add: joint_position_space_def)
    from a show ?thesis unfolding l by blast
  qed
  from a obtain j0 where "j0 \<in> fst ` set (joint_angles (limb w))" "j0 \<notin> set (used_joints s)"
    by blast
  with assign_joint_commands_other [OF jc, of j0]
  have "\<exists>j \<in> fst ` set (joint_angles (limb w)). map_of jc j = None" by auto
  from incremental_targets_KeyError [OF wf this, of "[]"] obtain j where
    j: "j \<in> fst ` set (joint_angles (limb w))" "map_of jc j = None"
    "incremental_targets (joint_angles (limb w)) jc joint_position_space [] = Inl (KeyError j)"
    by blast
  from sp cl jc j(3) mode have "send_command s w commands = (Inl (KeyError j), [])"
    by (simp add: send_command_def send_incremental_position_command_def)
  with j(1) none [OF j(2)]
  show "\<exists>j \<in> fst ` set (joint_angles (limb w)). j \<notin> set (used_joints s)
                 \<and> send_command s w commands = (Inl (KeyError j), [])"
    by blast
qed

theorem position_path_needs_every_limb_joint_witness:
  "control_mode one_joint_adapter = ''position''
   \<and> \<not> fst ` set (joint_angles (limb two_joint_world)) \<subseteq> set (used_joints one_joint_adapter)
   \<and> used_joints one_joint_adapter \<noteq> []
   \<and> hd (used_joints one_joint_adapter) \<in> set (joint_names (joint_limits one_joint_adapter))
   \<and> length (used_joints one_joint_adapter) \<le> 7
   \<and> length small_step = 7
   \<and> list_all (\<lambda>j. \<exists>index<7. joint_index j = Inr index)
        (map fst (joint_angles (limb two_joint_world)))
   \<and> send_command one_joint_adapter two_joint_world small_step =
        (Inl (KeyError ''right_j1''), [])
   \<and> control_mode (full_arm_adapter ''position'') = ''position''
   \<and> (\<exists>calls. send_command (full_arm_adapter ''position'') running_world small_step =
                  (Inr (), calls))
   \<and> fst ` set (joint_angles (limb running_world))
        \<subseteq> set (used_joints (full_arm_adapter ''position''))"
proof -
  let ?a = one_joint_adapter and ?w = two_joint_world
  have m: "control_mode ?a = ''position''"
    by (simp add: one_joint_adapter_def control_mode_init)
  have u: "used_joints ?a = [''right_j0'']"
    by (simp add: one_joint_adapter_def used_joints_init)
  have l: "joint_angles (limb ?w) = [(''right_j0'', 1 / 2), (''right_j1'', 1 / 4)]"
    by (simp add: two_joint_world_def two_joint_limb_def)
  have n: "\<not> fst ` set (joint_angles (limb ?w)) \<subseteq> set (used_joints ?a)"
    by (simp add: l u)
  have h: "hd (used_joints ?a) \<in> set (joint_names (joint_limits ?a))"
    unfolding u
    by (simp add: one_joint_adapter_def joint_limits_init sawyer_limits_def
        right_arm_joints_def)
  have len: "length small_step = 7"
    by (simp add: small_step_def)
  have ix: "\<forall>j \<in> fst ` set (joint_angles (limb ?w)). \<exists>index<7. joint_index j = Inr index"
    by (simp add: l joint_index_def)
  from position_path_needs_every_limb_joint [OF m, of ?w small_step] n u h len ix
  have "\<exists>j \<in> fst ` set (joint_angles (limb ?w)). j \<notin> set (used_joints ?a)
          \<and> send_command ?a ?w small_step = (Inl (KeyError j), [])"
    by simp
  then have k: "send_command ?a ?w small_step = (Inl (KeyError ''right_j1''), [])"
    by (auto simp: l u)
  have m': "control_mode (full_arm_adapter ''position'') = ''position''"
    by (simp add: full_arm_adapter_def control_mode_init)
  have ok: "\<exists>calls. send_command (full_arm_adapter ''position'') running_world small_step =
                  (Inr (), calls)"
    by (simp add: send_command_small_step)
  with position_path_needs_every_limb_joint [OF m', of running_world small_step]
  have sub: "fst ` set (joint_angles (limb running_world))
        \<subseteq> set (used_joints (full_arm_adapter ''position''))"
    by blast
  from ix have "list_all (\<lambda>j. \<exists>index<7. joint_index j = Inr index)
        (map fst (joint_angles (limb ?w)))"
    by (simp add: list_all_iff)
  with m n u h len k m' ok sub show ?thesis by simp
qed

text \<open>
  Two adapters whose controlled joints are a proper subset of the seven joints the limb
  reports. With two controlled joints and a command vector of two entries, the clip
  against the seven-entry action bounds raises a \<open>ValueError\<close>; with no controlled joint,
  \<open>action_space\<close> raises an \<open>UnboundLocalError\<close>. Neither is a key-lookup error.
\<close>

theorem position_path_key_error_counterexample:
  "control_mode two_joint_adapter = ''position''
   \<and> set (used_joints two_joint_adapter) \<subset> fst ` set (joint_angles (limb running_world))
   \<and> send_command two_joint_adapter running_world [1 / 64, 1 / 64] =
        (Inl (ValueError ''operands could not be broadcast together''), [])
   \<and> control_mode no_joint_adapter = ''position''
   \<and> set (used_joints no_joint_adapter) \<subset> fst ` set (joint_angles (limb running_world))
   \<and> send_command no_joint_adapter running_world small_step =
        (Inl (UnboundLocalError ''lower_bounds''), [])"
proof -
  have u2: "used_joints two_joint_adapter = [''right_j0'', ''right_j1'']"
    by (simp add: two_joint_adapter_def used_joints_init)
  have u0: "used_joints no_joint_adapter = []"
    by (simp add: no_joint_adapter_def used_joints_init)
  have l: "fst ` set (joint_angles (limb running_world)) = set right_arm_joints"
    by (simp add: running_world_def limb_at_zero_def arm_at_zero_def image_image)
  have p2: "set (used_joints two_joint_adapter) \<subset> fst ` set (joint_angles (limb running_world))"
  proof -
    have "''right_j2'' \<in> set right_arm_joints"
      and "''right_j2'' \<notin> set (used_joints two_joint_adapter)"
      by (simp_all add: right_arm_joints_def u2)
    moreover have "set (used_joints two_joint_adapter) \<subseteq> set right_arm_joints"
      by (simp add: right_arm_joints_def u2)
    ultimately show ?thesis unfolding l by blast
  qed
  have p0: "set (used_joints no_joint_adapter) \<subset> fst ` set (joint_angles (limb running_world))"
    unfolding l u0 by (simp add: right_arm_joints_def psubset_eq)
  have m2: "control_mode two_joint_adapter = ''position''"
    by (simp add: two_joint_adapter_def control_mode_init)
  have m0: "control_mode no_joint_adapter = ''position''"
    by (simp add: no_joint_adapter_def control_mode_init)
  have a: "action_space two_joint_adapter =
      Inr \<lparr> low = replicate 7 (-0.02), high = replicate 7 0.02 \<rparr>"
  proof (rule action_space_position_ok)
    show "control_mode two_joint_adapter = ''position''" by (rule m2)
    show "used_joints two_joint_adapter \<noteq> []" by (simp add: u2)
    show "hd (used_joints two_joint_adapter)
        \<in> set (joint_names (joint_limits two_joint_adapter))"
      unfolding u2
      by (simp add: two_joint_adapter_def joint_limits_init sawyer_limits_def
          right_arm_joints_def)
  qed
  have c: "np_clip [x, y] (replicate 7 lo) (replicate 7 hi) =
      Inl (ValueError ''operands could not be broadcast together'')" for x y lo hi
    by (simp add: np_clip_def broadcast_shape_def)
  have s2: "send_command two_joint_adapter running_world [1 / 64, 1 / 64] =
        (Inl (ValueError ''operands could not be broadcast together''), [])"
    by (simp add: send_command_def a c)
  have s0: "send_command no_joint_adapter running_world small_step =
        (Inl (UnboundLocalError ''lower_bounds''), [])"
    by (simp add: send_command_def action_space_def u0)
  from m2 p2 s2 m0 p0 s0 show ?thesis by simp
qed

subsection \<open>The configuration is fixed\<close>

lemmas py_monad =
  return_py_def raise_py_def bind_py_def lift_py_def read_self_def sdk_def read_local_def

text \<open>The constructor does change the object: it sets every attribute.\<close>

lemma append_joints_py_eq:
  "append_joints_py js st = (Inr (), st\<lparr> self := (self st)\<lparr> used_joints := used_joints (self st) @ js \<rparr> \<rparr>)"
  by (induction js arbitrary: st) (simp_all add: py_monad write_self_def)

lemma Sawyer_init_py_eq:
  "Sawyer_init_py d g m l st = (Inr (), st\<lparr> self := Sawyer_init d g m l \<rparr>)"
  by (simp add: Sawyer_init_py_def Sawyer_init_def py_monad write_self_def append_joints_py_eq
      append_joints_eq)

text \<open>
  Each program returns what the function of the same name computes from the object,
  appends the calls that function lists, and leaves the object as it found it.
\<close>

lemma action_space_loop_py_eq:
  "action_space_loop_py js lb ub st = (action_space_loop (self st) js lb ub, st)"
  by (induction js arbitrary: lb ub)
     (auto simp: py_monad Let_def split: sum.splits option.splits)

lemma action_space_py_eq: "action_space_py st = (action_space (self st), st)"
  by (simp add: action_space_py_def action_space_def action_space_loop_py_eq py_monad)

lemma safety_predict_py_eq:
  "safety_predict_py w d st = (safety_predict (self st) w d, st)"
  by (simp add: safety_predict_py_def safety_predict_def py_monad split: sum.splits)

lemma safety_check_py_eq:
  "safety_check_py w st = (safety_check (self st) w, st)"
  by (simp add: safety_check_py_def safety_check_def py_monad Let_def split: sum.splits)

lemma reset_py_eq:
  "reset_py w st = (fst (reset (self st) w), st\<lparr> sdk_calls := sdk_calls st @ snd (reset (self st) w) \<rparr>)"
  by (simp add: reset_py_def reset_def move_to_start_position_py_def move_to_start_position_def
      py_monad)

lemma get_observation_py_eq:
  "get_observation_py w st = (Inr (get_observation (self st) w), st)"
  by (simp add: get_observation_py_def get_observation_def py_monad Let_def)

lemma observation_space_py_eq:
  "observation_space_py w st = (Inr (observation_space (self st) w), st)"
  by (simp add: observation_space_py_def observation_space_def get_observation_py_eq py_monad)

lemma send_command_py_eq:
  "send_command_py w commands st =
     (fst (send_command (self st) w commands),
      st\<lparr> sdk_calls := sdk_calls st @ snd (send_command (self st) w commands) \<rparr>)"
  by (simp add: send_command_py_def send_command_def action_space_py_eq py_monad
      send_incremental_position_command_py_def send_incremental_position_command_def
      set_limb_joint_velocities_py_def set_limb_joint_velocities_def
      set_limb_joint_torques_py_def set_limb_joint_torques_def
      split: sum.splits)

lemma step_self: "self (step w op st) = self st"
  by (cases op)
     (simp_all add: reset_py_eq get_observation_py_eq send_command_py_eq safety_check_py_eq
        safety_predict_py_eq action_space_py_eq observation_space_py_eq
        joint_position_space_py_def return_py_def)

text \<open>
  C8: the control mode, the list of controlled joints (its members and their order) and
  the joint-limits message are left as they were by any sequence of \<open>reset\<close>,
  \<open>get_observation\<close>, \<open>send_command\<close>, \<open>safety_check\<close>, \<open>safety_predict\<close> and the
  three space properties, whether the operations return or raise; after the constructor
  they are the mode, the keys of \<open>initial_joint_pos\<close> in order, and the message it
  was given.
\<close>

theorem configuration_fixed:
  "control_mode (self (run w ops st)) = control_mode (self st)
   \<and> used_joints (self (run w ops st)) = used_joints (self st)
   \<and> joint_limits (self (run w ops st)) = joint_limits (self st)
   \<and> control_mode (self (run w ops (snd (Sawyer_init_py d g m l st)))) = m
   \<and> used_joints (self (run w ops (snd (Sawyer_init_py d g m l st)))) = map fst d
   \<and> joint_limits (self (run w ops (snd (Sawyer_init_py d g m l st)))) = l"
proof -
  have frame: "self (run w ops st') = self st'" for st'
    by (induction ops arbitrary: st') (simp_all add: step_self)
  show ?thesis
    by (simp add: frame Sawyer_init_py_eq used_joints_init control_mode_init
        joint_limits_init)
qed

end
